theory Spec2Isabelle
  imports Main "HOL-Library.Sublist"
begin

section \<open>Routing data model\<close>

text \<open>
  The types of \<open>routing/types\<close> and \<open>routing/config\<close> as the navigation functions use
  them. A locale is an opaque identifier string. An optional property of a JavaScript
  object is an \<open>option\<close>; \<open>localeCookie: false\<close> is \<open>None\<close>.
\<close>

type_synonym Locale = string

datatype LocalePrefixMode = Always | AsNeeded | Never

record LocalePrefix =
  mode :: LocalePrefixMode
  prefixes :: "Locale \<rightharpoonup> string"

record DomainConfig =
  domain :: string
  domainDefaultLocale :: Locale
  domainLocales :: "Locale list option"

datatype PathnameEntry = Shared string | Localized "(Locale \<times> string) list"

type_synonym Pathnames = "(string \<times> PathnameEntry) list"

record CookieConfig =
  cookieName :: string
  maxAge :: nat
  sameSite :: string
  cookiePath :: "string option"

record RoutingConfig =
  locales :: "Locale list option"
  defaultLocale :: "Locale option"
  localePrefix :: LocalePrefix
  domains :: "DomainConfig list option"
  pathnames :: "Pathnames option"
  localeCookie :: "CookieConfig option"
  localeDetection :: bool
  alternateLinks :: bool

text \<open>The user-supplied configuration: every property optional, the prefix setting either
  a bare mode or an object with a mode and custom prefixes.\<close>

datatype RawLocalePrefix = Bare LocalePrefixMode | Structured LocalePrefixMode "(Locale \<times> string) list"

record RawConfig =
  rawLocales :: "Locale list option"
  rawDefaultLocale :: "Locale option"
  rawLocalePrefix :: "RawLocalePrefix option"
  rawDomains :: "DomainConfig list option"
  rawPathnames :: "Pathnames option"
  rawLocaleCookie :: "CookieConfig option option"
  rawLocaleDetection :: "bool option"
  rawAlternateLinks :: "bool option"

section \<open>Hrefs, parameters and errors\<close>

datatype ParamValue = Single string | Multi "string list"

type_synonym Params = "string \<rightharpoonup> ParamValue"

datatype QueryValue = QSingle string | QMulti "string list"

type_synonym QueryParams = "(string \<times> QueryValue) list"

record HrefObject =
  pathname :: string
  params :: "Params option"
  query :: "QueryParams option"

datatype Href = HrefString string | HrefObj HrefObject

datatype Error =
    InvalidLocaleList
  | PrefixCollision
  | InvalidDomains
  | InconsistentPathnameParams string
  | MissingParameterError string

section \<open>The helpers imported by the navigation functions\<close>

text \<open>
  \<open>createSharedNavigationFns\<close> imports \<open>receiveRoutingConfig\<close> from \<open>routing/config\<close>,
  \<open>isLocalizableHref\<close> from \<open>shared/utils\<close> and the remaining helpers from
  \<open>navigation/shared/utils\<close>. None of these modules is among the sources, so the
  navigation functions take them as a parameter: what is proved for every \<open>Utils\<close> depends
  on the code of \<open>createSharedNavigationFns\<close> alone. A helper that throws returns the
  error as a value.
\<close>

record Utils =
  receiveRoutingConfig :: "RawConfig \<Rightarrow> RoutingConfig"
  validateReceivedConfig :: "RoutingConfig \<Rightarrow> Error option"
  isLocalizableHref :: "Href \<Rightarrow> bool"
  normalizeNameOrNameWithParams :: "Href \<Rightarrow> HrefObject"
  compileLocalizedPathname :: "Locale \<Rightarrow> HrefObject \<Rightarrow> Pathnames \<Rightarrow> Error + string"
  serializeSearchParams :: "QueryParams \<Rightarrow> string"
  applyPathnamePrefix ::
    "string \<Rightarrow> Locale \<Rightarrow> RoutingConfig \<Rightarrow> string option \<Rightarrow> bool option \<Rightarrow> string"

section \<open>createSharedNavigationFns\<close>

text \<open>
  The closure of \<open>createSharedNavigationFns\<close>: the received configuration, its
  \<open>pathnames\<close>, and \<open>forcePrefixSsr\<close>, which is the \<open>domains\<close> array (always truthy) under
  \<open>as-needed\<close> and \<open>undefined\<close> otherwise.
\<close>

record Navigation =
  config :: RoutingConfig
  navPathnames :: "Pathnames option"
  forcePrefixSsr :: "DomainConfig list option"


text \<open>
  Lines 65 to 82. \<open>nodeEnv\<close> is \<open>process.env.NODE_ENV\<close>; the configuration is validated only
  when it is not \<open>production\<close>. An error thrown by the validation leaves the function.
  \<open>navOf\<close> is lines 70 to 82, what the closure keeps of the configuration.
\<close>

definition navOf :: "RoutingConfig \<Rightarrow> Navigation" where
  "navOf cfg =
     \<lparr>config = cfg,
      navPathnames = pathnames cfg,
      forcePrefixSsr = (if mode (localePrefix cfg) = AsNeeded then domains cfg else None)\<rparr>"


record GetPathnameArgs =
  argHref :: Href
  argLocale :: Locale
  argDomain :: "string option"

text \<open>
  Lines 206 to 224 of \<open>getPathname\<close>: the local variable \<open>pathname\<close>. Without
  \<open>pathnames\<close> the href is used as it is, with the serialized query of an object href
  appended; with \<open>pathnames\<close> the href is compiled for the locale, which may throw.
\<close>

definition compiledPathname :: "Utils \<Rightarrow> Navigation \<Rightarrow> GetPathnameArgs \<Rightarrow> Error + string" where
  "compiledPathname u nav args =
     (case navPathnames nav of
        None \<Rightarrow>
          (case argHref args of
             HrefObj h \<Rightarrow>
               Inr (case query h of
                      Some q \<Rightarrow> pathname h @ serializeSearchParams u q
                    | None \<Rightarrow> pathname h)
           | HrefString s \<Rightarrow> Inr s)
      | Some ps \<Rightarrow>
          compileLocalizedPathname u (argLocale args)
            (normalizeNameOrNameWithParams u (argHref args)) ps)"

text \<open>Lines 193 to 234: the pathname, then \<open>applyPathnamePrefix\<close> with the private
  \<open>_forcePrefix\<close> argument (\<open>None\<close> is \<open>undefined\<close>).\<close>

definition getPathname ::
    "Utils \<Rightarrow> Navigation \<Rightarrow> GetPathnameArgs \<Rightarrow> bool option \<Rightarrow> Error + string" where
  "getPathname u nav args forcePrefix =
     (case compiledPathname u nav args of
        Inl e \<Rightarrow> Inl e
      | Inr p \<Rightarrow>
          Inr (applyPathnamePrefix u p (argLocale args) (config nav) (argDomain args)
                 forcePrefix))"

text \<open>JavaScript truthiness of the values involved: an array is always truthy, a string is
  truthy unless empty.\<close>

definition truthyString :: "string option \<Rightarrow> bool" where
  "truthyString s = (case s of None \<Rightarrow> False | Some v \<Rightarrow> v \<noteq> [])"

definition forceOf :: "DomainConfig list option \<Rightarrow> bool option" where
  "forceOf f = (case f of None \<Rightarrow> None | Some _ \<Rightarrow> Some True)"

text \<open>Lines 236 to 251: the pathname handed to Next.js' \<open>redirect\<close> or
  \<open>permanentRedirect\<close>. The prefix is forced when no domain is provided.\<close>

definition redirectFn :: "Utils \<Rightarrow> Navigation \<Rightarrow> GetPathnameArgs \<Rightarrow> Error + string" where
  "redirectFn u nav args =
     getPathname u nav args
       (if truthyString (argDomain args) then None else forceOf (forcePrefixSsr nav))"

record LinkProps =
  propHref :: Href
  propLocale :: "string option"

record Unprefixed =
  unprefixedDomains :: "string \<rightharpoonup> Locale"
  unprefixedPathname :: string

text \<open>The props that \<open>Link\<close> hands to \<open>BaseLink\<close>.\<close>

record BaseLinkProps =
  linkHref :: Href
  linkLocale :: "string option"
  linkDefaultLocale :: "Locale option"
  linkLocaleCookie :: "CookieConfig option"
  unprefixed :: "Unprefixed option"

definition hrefPathname :: "Href \<Rightarrow> string" where
  "hrefPathname h = (case h of HrefObj ob \<Rightarrow> pathname ob | HrefString s \<Rightarrow> s)"

definition hrefParams :: "Href \<Rightarrow> Params option" where
  "hrefParams h = (case h of HrefObj ob \<Rightarrow> params ob | HrefString s \<Rightarrow> None)"

definition hrefQuery :: "Href \<Rightarrow> QueryParams option" where
  "hrefQuery h = (case h of HrefObj ob \<Rightarrow> query ob | HrefString s \<Rightarrow> None)"


text \<open>\<open>locale || curLocale\<close>: an absent or empty \<open>locale\<close> prop gives the current locale.\<close>

definition localeOr :: "string option \<Rightarrow> Locale \<Rightarrow> Locale" where
  "localeOr l curLocale = (if truthyString l then the l else curLocale)"

text \<open>\<open>locale != null || forcePrefixSsr || undefined\<close>.\<close>

definition linkForcePrefix :: "string option \<Rightarrow> DomainConfig list option \<Rightarrow> bool option" where
  "linkForcePrefix l f = (if l \<noteq> None then Some True else forceOf f)"

text \<open>Lines 119 to 128: the pathname \<open>Link\<close> renders, and the arguments of its call of
  \<open>getPathname\<close>.\<close>

definition finalArgs :: "Navigation \<Rightarrow> Locale \<Rightarrow> LinkProps \<Rightarrow> GetPathnameArgs" where
  "finalArgs nav curLocale props =
     \<lparr>argHref =
        (case navPathnames nav of
           None \<Rightarrow> HrefString (hrefPathname (propHref props))
         | Some _ \<Rightarrow>
             HrefObj \<lparr>pathname = hrefPathname (propHref props),
                      params = hrefParams (propHref props), query = None\<rparr>),
      argLocale = localeOr (propLocale props) curLocale,
      argDomain = None\<rparr>"

definition finalPathname :: "Utils \<Rightarrow> Navigation \<Rightarrow> Locale \<Rightarrow> LinkProps \<Rightarrow> Error + string" where
  "finalPathname u nav curLocale props =
     (if isLocalizableHref u (propHref props)
      then getPathname u nav (finalArgs nav curLocale props)
             (linkForcePrefix (propLocale props) (forcePrefixSsr nav))
      else Inr (hrefPathname (propHref props)))"

text \<open>Lines 148 to 158: the \<open>reduce\<close> over the domains, a later entry of the same domain
  overwriting an earlier one.\<close>

definition domainDefaults :: "DomainConfig list \<Rightarrow> (string \<rightharpoonup> Locale)" where
  "domainDefaults ds = fold (\<lambda>d acc. acc(domain d \<mapsto> domainDefaultLocale d)) ds Map.empty"

text \<open>Lines 145 to 172: the \<open>unprefixed\<close> prop, present when the prefix was forced for
  server-side rendering and the href is localizable; its pathname is computed for the
  current locale with the prefix switched off.\<close>

definition unprefixedArgs :: "Navigation \<Rightarrow> Locale \<Rightarrow> LinkProps \<Rightarrow> GetPathnameArgs" where
  "unprefixedArgs nav curLocale props =
     \<lparr>argHref =
        HrefObj \<lparr>pathname = hrefPathname (propHref props),
                 params =
                   (case navPathnames nav of
                      None \<Rightarrow> None
                    | Some _ \<Rightarrow> hrefParams (propHref props)),
                 query = hrefQuery (propHref props)\<rparr>,
      argLocale = curLocale,
      argDomain = None\<rparr>"

definition unprefixedProp ::
    "Utils \<Rightarrow> Navigation \<Rightarrow> Locale \<Rightarrow> LinkProps \<Rightarrow> Error + Unprefixed option" where
  "unprefixedProp u nav curLocale props =
     (case forcePrefixSsr nav of
        None \<Rightarrow> Inr None
      | Some ds \<Rightarrow>
          if isLocalizableHref u (propHref props)
          then (case getPathname u nav (unprefixedArgs nav curLocale props) (Some False) of
                  Inl e \<Rightarrow> Inl e
                | Inr p \<Rightarrow>
                    Inr (Some \<lparr>unprefixedDomains = domainDefaults ds,
                               unprefixedPathname = p\<rparr>))
          else Inr None)"

text \<open>Lines 97 to 176: \<open>Link\<close>, with \<open>curLocale\<close> the value that \<open>getLocale()\<close> yields.\<close>

definition Link :: "Utils \<Rightarrow> Navigation \<Rightarrow> Locale \<Rightarrow> LinkProps \<Rightarrow> Error + BaseLinkProps" where
  "Link u nav curLocale props =
     (case finalPathname u nav curLocale props of
        Inl e \<Rightarrow> Inl e
      | Inr p \<Rightarrow>
          (case unprefixedProp u nav curLocale props of
             Inl e \<Rightarrow> Inl e
           | Inr un \<Rightarrow>
               Inr \<lparr>linkHref =
                      (case propHref props of
                         HrefObj ob \<Rightarrow> HrefObj (ob\<lparr>pathname := p\<rparr>)
                       | HrefString _ \<Rightarrow> HrefString p),
                    linkLocale = propLocale props,
                    linkDefaultLocale = defaultLocale (config nav),
                    linkLocaleCookie = localeCookie (config nav),
                    unprefixed = un\<rparr>))"

section \<open>The Routing Config Resolver\<close>

text \<open>
  Modelled from the spec: \<open>receiveRoutingConfig\<close> (\<open>routing/config\<close>) is missing from the
  sources. Section 4.1: the resolver fills the defaults (prefix mode \<open>Always\<close>, the locale
  cookie enabled with a one-year expiry, \<open>lax\<close> and a root-relative path, locale detection
  and alternate links switched on), turns a bare prefix mode into that mode with no custom
  prefixes and an object into the mode with its prefixes, and switches the alternate links
  off when the prefix mode is \<open>Never\<close>.
\<close>

definition defaultLocaleCookie :: CookieConfig where
  "defaultLocaleCookie =
     \<lparr>cookieName = ''NEXT_LOCALE'', maxAge = 31536000, sameSite = ''lax'',
      cookiePath = Some ''/''\<rparr>"

definition resolveLocalePrefix :: "RawLocalePrefix option \<Rightarrow> LocalePrefix" where
  "resolveLocalePrefix r =
     (case r of
        None \<Rightarrow> \<lparr>mode = Always, prefixes = Map.empty\<rparr>
      | Some (Bare m) \<Rightarrow> \<lparr>mode = m, prefixes = Map.empty\<rparr>
      | Some (Structured m ps) \<Rightarrow> \<lparr>mode = m, prefixes = map_of ps\<rparr>)"

definition resolveRoutingConfig :: "RawConfig \<Rightarrow> RoutingConfig" where
  "resolveRoutingConfig r =
     \<lparr>locales = rawLocales r,
      defaultLocale = rawDefaultLocale r,
      localePrefix = resolveLocalePrefix (rawLocalePrefix r),
      domains = rawDomains r,
      pathnames = rawPathnames r,
      localeCookie =
        (case rawLocaleCookie r of None \<Rightarrow> Some defaultLocaleCookie | Some c \<Rightarrow> c),
      localeDetection = (case rawLocaleDetection r of None \<Rightarrow> True | Some b \<Rightarrow> b),
      alternateLinks =
        ((case rawAlternateLinks r of None \<Rightarrow> True | Some b \<Rightarrow> b)
         \<and> mode (resolveLocalePrefix (rawLocalePrefix r)) \<noteq> Never)\<rparr>"

section \<open>Pathname templates\<close>

text \<open>
  Modelled from the spec: sections 3 and 4.2 give a template the placeholders \<open>[name]\<close>
  and \<open>[...name]\<close>, and \<open>compile\<close> replaces each occurrence. A template is split at every
  \<open>/\<close>, and each piece is read from left to right: \<open>[\<close>, a name without \<open>[\<close>, \<open>]\<close> and
  \<open>/\<close>, and \<open>]\<close> are a placeholder, a catch-all one when the name starts with \<open>...\<close>;
  every other character stands for itself. A piece that is one placeholder is a named
  or a catch-all segment, a piece without a placeholder is a literal, and a piece such as
  \<open>[articleSlug]-[articleId]\<close> of \<open>docs/routing.mdx\<close> is a mixed segment.
\<close>

datatype Token = Chr char | Param string | Rest string

datatype Segment = Lit string | Named string | CatchAll string | Mixed "Token list"

fun splitOn :: "char \<Rightarrow> string \<Rightarrow> string list" where
  "splitOn c [] = [[]]"
| "splitOn c (x # xs) =
     (if x = c then [] # splitOn c xs
      else (case splitOn c xs of [] \<Rightarrow> [[x]] | y # ys \<Rightarrow> (x # y) # ys))"

fun joinWith :: "char \<Rightarrow> string list \<Rightarrow> string" where
  "joinWith c [] = []"
| "joinWith c [x] = x"
| "joinWith c (x # y # ys) = x @ c # joinWith c (y # ys)"

definition nameChar :: "char \<Rightarrow> bool" where
  "nameChar c = (c \<noteq> CHR ''['' \<and> c \<noteq> CHR '']'' \<and> c \<noteq> CHR ''/'')"

definition placeholder :: "string \<Rightarrow> Token option" where
  "placeholder n =
     (if take 3 n = ''...''
      then (if drop 3 n = [] then None else Some (Rest (drop 3 n)))
      else if n = [] then None else Some (Param n))"

function tokenize :: "string \<Rightarrow> Token list" where
  "tokenize [] = []"
| "tokenize (c # cs) =
     (if c = CHR ''[''
      then (case placeholder (takeWhile nameChar cs) of
              None \<Rightarrow> Chr c # tokenize cs
            | Some tok \<Rightarrow>
                (case dropWhile nameChar cs of
                   [] \<Rightarrow> Chr c # tokenize cs
                 | d # r \<Rightarrow> if d = CHR '']'' then tok # tokenize r else Chr c # tokenize cs))
      else Chr c # tokenize cs)"
  by pat_completeness auto
termination
proof (relation "measure length")
  show "wf (measure length)" by simp
next
  fix c :: char and cs :: string and tok d r
  assume "dropWhile nameChar cs = d # r"
  then have "length (d # r) \<le> length cs"
    by (metis length_dropWhile_le)
  then show "(r, c # cs) \<in> measure length" by simp
qed simp_all

fun isChr :: "Token \<Rightarrow> bool" where
  "isChr (Chr _) = True"
| "isChr _ = False"

definition parseSegment :: "string \<Rightarrow> Segment" where
  "parseSegment p =
     (case tokenize p of
        [Param n] \<Rightarrow> Named n
      | [Rest n] \<Rightarrow> CatchAll n
      | ts \<Rightarrow> if list_all isChr ts then Lit p else Mixed ts)"

definition parseTemplate :: "string \<Rightarrow> Segment list" where
  "parseTemplate t = map parseSegment (splitOn CHR ''/'' t)"


text \<open>The placeholders of a segment and of a template.\<close>

fun segmentParams :: "Segment \<Rightarrow> Token list" where
  "segmentParams (Lit _) = []"
| "segmentParams (Named n) = [Param n]"
| "segmentParams (CatchAll n) = [Rest n]"
| "segmentParams (Mixed ts) = filter (\<lambda>k. \<not> isChr k) ts"

definition templateParams :: "string \<Rightarrow> Token list" where
  "templateParams t = concat (map segmentParams (parseTemplate t))"

section \<open>Validation of the configuration\<close>

text \<open>
  Modelled from the spec: \<open>validateReceivedConfig\<close> (\<open>navigation/shared/utils\<close>) is missing
  from the sources. Section 4.1 has the resolver validate the invariants of section 3 and
  report a descriptive configuration error: the locales are unique and not empty and
  contain the default locale; no two locales share a prefix; every domain host appears
  once, and a domain's default locale is one of its locales; all the locales of one
  localized pathname entry have the same set of parameters. (Section 3 also forbids a
  prefix that collides with a reserved path segment, and names no reserved segment; that
  check is left out.)
\<close>

definition getLocalePrefix :: "Locale \<Rightarrow> LocalePrefix \<Rightarrow> string" where
  "getLocalePrefix l lp = (case prefixes lp l of Some p \<Rightarrow> p | None \<Rightarrow> CHR ''/'' # l)"

definition validLocales :: "RoutingConfig \<Rightarrow> bool" where
  "validLocales cfg =
     (case locales cfg of
        None \<Rightarrow> True
      | Some ls \<Rightarrow>
          ls \<noteq> [] \<and> distinct ls
          \<and> (case defaultLocale cfg of None \<Rightarrow> True | Some d \<Rightarrow> d \<in> set ls))"

definition uniquePrefixes :: "RoutingConfig \<Rightarrow> bool" where
  "uniquePrefixes cfg =
     (case locales cfg of
        None \<Rightarrow> True
      | Some ls \<Rightarrow> distinct (map (\<lambda>l. getLocalePrefix l (localePrefix cfg)) ls))"

definition domainLocalesOf :: "RoutingConfig \<Rightarrow> DomainConfig \<Rightarrow> Locale list option" where
  "domainLocalesOf cfg d = (case domainLocales d of Some ls \<Rightarrow> Some ls | None \<Rightarrow> locales cfg)"

definition validDomain :: "RoutingConfig \<Rightarrow> DomainConfig \<Rightarrow> bool" where
  "validDomain cfg d =
     ((case domainLocalesOf cfg d of
         None \<Rightarrow> True
       | Some ls \<Rightarrow> domainDefaultLocale d \<in> set ls)
      \<and> (case (domainLocales d, locales cfg) of
           (Some ls, Some gs) \<Rightarrow> list_all (\<lambda>l. l \<in> set gs) ls
         | _ \<Rightarrow> True))"

definition validDomains :: "RoutingConfig \<Rightarrow> bool" where
  "validDomains cfg =
     (case domains cfg of
        None \<Rightarrow> True
      | Some ds \<Rightarrow> distinct (map domain ds) \<and> list_all (validDomain cfg) ds)"

definition consistentEntry :: "PathnameEntry \<Rightarrow> bool" where
  "consistentEntry e =
     (case e of
        Shared _ \<Rightarrow> True
      | Localized [] \<Rightarrow> True
      | Localized ((l, t) # rest) \<Rightarrow>
          list_all (\<lambda>(l', t'). set (templateParams t') = set (templateParams t)) rest)"

definition validateRoutingConfig :: "RoutingConfig \<Rightarrow> Error option" where
  "validateRoutingConfig cfg =
     (if \<not> validLocales cfg then Some InvalidLocaleList
      else if \<not> uniquePrefixes cfg then Some PrefixCollision
      else if \<not> validDomains cfg then Some InvalidDomains
      else (case find (\<lambda>(t, e). \<not> consistentEntry e)
                   (case pathnames cfg of None \<Rightarrow> [] | Some ps \<Rightarrow> ps) of
              Some (t, e) \<Rightarrow> Some (InconsistentPathnameParams t)
            | None \<Rightarrow> None))"



section \<open>The Pathname Compiler\<close>

text \<open>
  Modelled from the spec: \<open>compileLocalizedPathname\<close>, \<open>normalizeNameOrNameWithParams\<close> and
  \<open>serializeSearchParams\<close> (\<open>navigation/shared/utils\<close>) are missing from the sources.
  Section 4.2: \<open>compile\<close> looks up the localized template of the canonical one (or takes it
  verbatim when \<open>pathnames\<close> has no entry), replaces \<open>[name]\<close> by the URL-segment-encoded
  string value of the parameter and \<open>[...name]\<close> by the encoded values joined by \<open>/\<close>, and
  fails with \<open>MissingParameterError\<close> when a parameter has no value. The encoding is
  percent-encoding: every byte but a letter, a digit and \<open>-._~\<close> becomes \<open>%\<close> and two
  hexadecimal digits.
\<close>

definition unreserved :: "char \<Rightarrow> bool" where
  "unreserved c =
     (let n = (of_char c :: nat)
      in (48 \<le> n \<and> n \<le> 57) \<or> (65 \<le> n \<and> n \<le> 90) \<or> (97 \<le> n \<and> n \<le> 122)
         \<or> c \<in> set ''-._~'')"

definition hexDigit :: "nat \<Rightarrow> char" where
  "hexDigit n = (if n < 10 then char_of (48 + n) else char_of (55 + n))"


definition encodeChar :: "char \<Rightarrow> string" where
  "encodeChar c =
     (if unreserved c then [c]
      else [CHR ''%'', hexDigit (of_char c div 16), hexDigit (of_char c mod 16)])"

definition encodeSegment :: "string \<Rightarrow> string" where
  "encodeSegment s = concat (map encodeChar s)"


text \<open>The string value of a parameter, and its values as a list.\<close>

fun stringValue :: "ParamValue \<Rightarrow> string" where
  "stringValue (Single s) = s"
| "stringValue (Multi xs) = joinWith CHR '','' xs"

fun listValue :: "ParamValue \<Rightarrow> string list" where
  "listValue (Single s) = [s]"
| "listValue (Multi xs) = xs"

definition localizedTemplate :: "Pathnames \<Rightarrow> string \<Rightarrow> Locale \<Rightarrow> string" where
  "localizedTemplate ps t l =
     (case map_of ps t of
        None \<Rightarrow> t
      | Some (Shared s) \<Rightarrow> s
      | Some (Localized m) \<Rightarrow> (case map_of m l of Some s \<Rightarrow> s | None \<Rightarrow> t))"

fun substToken :: "Params \<Rightarrow> Token \<Rightarrow> Error + string" where
  "substToken ps (Chr c) = Inr [c]"
| "substToken ps (Param n) =
     (case ps n of
        None \<Rightarrow> Inl (MissingParameterError n)
      | Some v \<Rightarrow> Inr (encodeSegment (stringValue v)))"
| "substToken ps (Rest n) =
     (case ps n of
        None \<Rightarrow> Inl (MissingParameterError n)
      | Some v \<Rightarrow> Inr (joinWith CHR ''/'' (map encodeSegment (listValue v))))"

fun substTokens :: "Params \<Rightarrow> Token list \<Rightarrow> Error + string" where
  "substTokens ps [] = Inr []"
| "substTokens ps (k # ks) =
     (case substToken ps k of
        Inl e \<Rightarrow> Inl e
      | Inr x \<Rightarrow> (case substTokens ps ks of Inl e \<Rightarrow> Inl e | Inr y \<Rightarrow> Inr (x @ y)))"

fun substSegment :: "Params \<Rightarrow> Segment \<Rightarrow> Error + string" where
  "substSegment ps (Lit s) = Inr s"
| "substSegment ps (Named n) = substToken ps (Param n)"
| "substSegment ps (CatchAll n) = substToken ps (Rest n)"
| "substSegment ps (Mixed ts) = substTokens ps ts"

fun substSegments :: "Params \<Rightarrow> Segment list \<Rightarrow> Error + string list" where
  "substSegments ps [] = Inr []"
| "substSegments ps (g # gs) =
     (case substSegment ps g of
        Inl e \<Rightarrow> Inl e
      | Inr x \<Rightarrow> (case substSegments ps gs of Inl e \<Rightarrow> Inl e | Inr xs \<Rightarrow> Inr (x # xs)))"

definition compile :: "Pathnames \<Rightarrow> string \<Rightarrow> Locale \<Rightarrow> Params \<Rightarrow> Error + string" where
  "compile ps t l pms =
     (case substSegments pms (parseTemplate (localizedTemplate ps t l)) of
        Inl e \<Rightarrow> Inl e
      | Inr xs \<Rightarrow> Inr (joinWith CHR ''/'' xs))"

text \<open>Section 4.2: the query is serialized on its own, the keys in input order and an
  array value repeating its key, and appended after the compiled path.\<close>

definition queryPairs :: "QueryParams \<Rightarrow> (string \<times> string) list" where
  "queryPairs q =
     concat (map (\<lambda>(k, v). case v of QSingle x \<Rightarrow> [(k, x)] | QMulti xs \<Rightarrow> map (Pair k) xs) q)"

definition serializeQuery :: "QueryParams \<Rightarrow> string" where
  "serializeQuery q = CHR ''?'' # joinWith CHR ''&'' (map (\<lambda>(k, v). k @ CHR ''='' # v) (queryPairs q))"

text \<open>Section 6: an href is a string or \<open>{pathname, params, query}\<close>; the string is the
  object with the pathname alone.\<close>

definition normalizeHref :: "Href \<Rightarrow> HrefObject" where
  "normalizeHref h =
     (case h of
        HrefObj ob \<Rightarrow> ob
      | HrefString s \<Rightarrow> \<lparr>pathname = s, params = None, query = None\<rparr>)"

definition compileHref :: "Locale \<Rightarrow> HrefObject \<Rightarrow> Pathnames \<Rightarrow> Error + string" where
  "compileHref l h ps =
     (case compile ps (pathname h) l (case params h of None \<Rightarrow> Map.empty | Some m \<Rightarrow> m) of
        Inl e \<Rightarrow> Inl e
      | Inr p \<Rightarrow> Inr (case query h of None \<Rightarrow> p | Some q \<Rightarrow> p @ serializeQuery q))"

section \<open>Matching a pathname against the templates\<close>














section \<open>The Domain Matcher\<close>

text \<open>
  Modelled from the spec: section 4.4. The domains are scanned in declaration order for
  the first host that equals the request host, ignoring case and, unless the configured
  host encodes a port itself, the port.
\<close>

definition lowerChar :: "char \<Rightarrow> char" where
  "lowerChar c =
     (case map_of (zip ''ABCDEFGHIJKLMNOPQRSTUVWXYZ'' ''abcdefghijklmnopqrstuvwxyz'') c of
        Some d \<Rightarrow> d
      | None \<Rightarrow> c)"

definition hostMatches :: "string \<Rightarrow> string \<Rightarrow> bool" where
  "hostMatches configured requested =
     (let c = map lowerChar configured; r = map lowerChar requested
      in if CHR '':'' \<in> set c then c = r else c = takeWhile (\<lambda>x. x \<noteq> CHR '':'') r)"

definition matchDomain :: "DomainConfig list \<Rightarrow> string \<Rightarrow> DomainConfig option" where
  "matchDomain ds host = find (\<lambda>d. hostMatches (domain d) host) ds"

section \<open>The Prefix Policy Engine\<close>

text \<open>
  Modelled from the spec: \<open>applyPathnamePrefix\<close> (\<open>navigation/shared/utils\<close>) is missing
  from the sources. Section 4.3: under \<open>Always\<close> every locale is prefixed, under \<open>Never\<close>
  none, under \<open>AsNeeded\<close> every locale but the default one, where the default is the
  matched domain's when \<open>domains\<close> is configured. The prefix is the custom prefix of the
  locale or \<open>/\<close> followed by the locale. The last argument is the \<open>_forcePrefix\<close> that
  \<open>getPathname\<close> passes on: when given, it decides in place of the policy. The root
  pathname \<open>/\<close> prefixed is the prefix itself, as in the alternate links of
  \<open>docs/routing.mdx\<close>.
\<close>

definition prefixPathname :: "string \<Rightarrow> string \<Rightarrow> string" where
  "prefixPathname pre p = (if p = ''/'' then pre else pre @ p)"

definition applicableDefaultLocale :: "RoutingConfig \<Rightarrow> string option \<Rightarrow> Locale option" where
  "applicableDefaultLocale cfg host =
     (case (domains cfg, host) of
        (Some ds, Some h) \<Rightarrow>
          (case matchDomain ds h of
             Some d \<Rightarrow> Some (domainDefaultLocale d)
           | None \<Rightarrow> defaultLocale cfg)
      | _ \<Rightarrow> defaultLocale cfg)"

definition prefixNeeded :: "RoutingConfig \<Rightarrow> Locale \<Rightarrow> string option \<Rightarrow> bool" where
  "prefixNeeded cfg l host =
     (case mode (localePrefix cfg) of
        Always \<Rightarrow> True
      | Never \<Rightarrow> False
      | AsNeeded \<Rightarrow> applicableDefaultLocale cfg host \<noteq> Some l)"

definition applyPrefixPolicy ::
    "string \<Rightarrow> Locale \<Rightarrow> RoutingConfig \<Rightarrow> string option \<Rightarrow> bool option \<Rightarrow> string" where
  "applyPrefixPolicy p l cfg host force =
     (if (case force of Some f \<Rightarrow> f | None \<Rightarrow> prefixNeeded cfg l host)
      then prefixPathname (getLocalePrefix l (localePrefix cfg)) p
      else p)"

section \<open>The helpers as the spec describes them\<close>

text \<open>
  Modelled from the spec: the helpers above, put in the place of the missing imports.
  The spec does not say which hrefs are localizable, so \<open>isLocalizableHref\<close> stays a
  parameter.
\<close>

definition specUtils :: "(Href \<Rightarrow> bool) \<Rightarrow> Utils" where
  "specUtils localizable =
     \<lparr>receiveRoutingConfig = resolveRoutingConfig,
      validateReceivedConfig = validateRoutingConfig,
      isLocalizableHref = localizable,
      normalizeNameOrNameWithParams = normalizeHref,
      compileLocalizedPathname = compileHref,
      serializeSearchParams = serializeQuery,
      applyPathnamePrefix = applyPrefixPolicy\<rparr>"

text \<open>
  Modelled from the spec: the spec names no test for a localizable href. In the concrete
  examples below an href counts as localizable when its pathname starts with \<open>/\<close>, which
  leaves out an external URL such as \<open>https://example.com/about\<close>.
\<close>

definition startsWithSlash :: "Href \<Rightarrow> bool" where
  "startsWithSlash h = (case hrefPathname h of [] \<Rightarrow> False | c # _ \<Rightarrow> c = CHR ''/'')"

section \<open>The configurations of the scenarios\<close>

text \<open>
  Section 8 of the spec: the locales \<open>en\<close> and \<open>de\<close> with default \<open>en\<close> under \<open>AsNeeded\<close>;
  the same with a duplicated locale; with one domain per default locale; and with the
  localized pathnames of sections 4.2 and 8.
\<close>

definition scenarioRouting :: RawConfig where
  "scenarioRouting =
     \<lparr>rawLocales = Some [''en'', ''de''], rawDefaultLocale = Some ''en'',
      rawLocalePrefix = Some (Bare AsNeeded), rawDomains = None,
      rawPathnames = None, rawLocaleCookie = None, rawLocaleDetection = None,
      rawAlternateLinks = None\<rparr>"


definition scenarioDomains :: "DomainConfig list" where
  "scenarioDomains =
     [\<lparr>domain = ''us.example.com'', domainDefaultLocale = ''en'', domainLocales = Some [''en'']\<rparr>,
      \<lparr>domain = ''de.example.com'', domainDefaultLocale = ''de'', domainLocales = None\<rparr>]"

definition domainsRouting :: RawConfig where
  "domainsRouting = scenarioRouting\<lparr>rawDomains := Some scenarioDomains\<rparr>"

definition scenarioPathnames :: Pathnames where
  "scenarioPathnames =
     [(''/about'', Localized [(''en'', ''/about''), (''de'', ''/ueber-uns'')]),
      (''/news/[articleId]'',
         Localized [(''en'', ''/news/[articleId]''), (''de'', ''/neuigkeiten/[articleId]'')]),
      (''/news/just-in'',
         Localized [(''en'', ''/news/just-in''), (''de'', ''/neuigkeiten/aktuell'')]),
      (''/categories/[...slug]'',
         Localized [(''en'', ''/categories/[...slug]''), (''de'', ''/kategorien/[...slug]'')])]"

definition pathnamesRouting :: RawConfig where
  "pathnamesRouting = scenarioRouting\<lparr>rawPathnames := Some scenarioPathnames\<rparr>"

text \<open>
  The localized pathnames of \<open>docs/routing.mdx\<close>, and the scenario with domains and these
  pathnames.
\<close>

definition docsPathnames :: Pathnames where
  "docsPathnames =
     [(''/'', Shared ''/''),
      (''/blog'', Shared ''/blog''),
      (''/about'', Localized [(''en'', ''/about''), (''de'', ''/ueber-uns'')]),
      (''/news/[articleSlug]-[articleId]'',
         Localized [(''en'', ''/news/[articleSlug]-[articleId]''),
                    (''de'', ''/neuigkeiten/[articleSlug]-[articleId]'')]),
      (''/news/just-in'',
         Localized [(''en'', ''/news/just-in''), (''de'', ''/neuigkeiten/aktuell'')]),
      (''/categories/[...slug]'',
         Localized [(''en'', ''/categories/[...slug]''), (''de'', ''/kategorien/[...slug]'')])]"

definition docsRouting :: RawConfig where
  "docsRouting = domainsRouting\<lparr>rawPathnames := Some docsPathnames\<rparr>"


section \<open>Facts about the helpers\<close>

lemma specUtils_simps:
  "receiveRoutingConfig (specUtils P) = resolveRoutingConfig"
  "validateReceivedConfig (specUtils P) = validateRoutingConfig"
  "isLocalizableHref (specUtils P) = P"
  "normalizeNameOrNameWithParams (specUtils P) = normalizeHref"
  "compileLocalizedPathname (specUtils P) = compileHref"
  "serializeSearchParams (specUtils P) = serializeQuery"
  "applyPathnamePrefix (specUtils P) = applyPrefixPolicy"
  by (simp_all add: specUtils_def)

lemma prefix_prefixPathname: "prefix pre (prefixPathname pre p)"
  by (simp add: prefixPathname_def)

lemma applyPrefixPolicy_forced:
  "applyPrefixPolicy p l c d (Some True) = prefixPathname (getLocalePrefix l (localePrefix c)) p"
  by (simp add: applyPrefixPolicy_def)




section \<open>What Link hands on\<close>

lemma Link_href_pathname:
  "Link u nav curLocale props = Inr out \<Longrightarrow>
   finalPathname u nav curLocale props = Inr (hrefPathname (linkHref out))"
  by (cases "propHref props")
     (auto simp: Link_def hrefPathname_def split: sum.splits)


section \<open>Validation at setup time\<close>







section \<open>Hrefs that are not localizable\<close>

text \<open>
  C10. For an href that is not localizable, \<open>Link\<close> renders the pathname of the href as
  it is: the href handed to \<open>BaseLink\<close> is the href received, whatever the current locale
  and the configuration, and no \<open>unprefixed\<close> prop is passed.
\<close>

theorem Link_non_localizable_identity:
  assumes "\<not> isLocalizableHref u (propHref props)"
  shows "finalPathname u nav curLocale props = Inr (hrefPathname (propHref props))
       \<and> Link u nav curLocale props =
           Inr \<lparr>linkHref = propHref props, linkLocale = propLocale props,
                linkDefaultLocale = defaultLocale (config nav),
                linkLocaleCookie = localeCookie (config nav), unprefixed = None\<rparr>"
proof -
  have f: "finalPathname u nav curLocale props = Inr (hrefPathname (propHref props))"
    using assms by (simp add: finalPathname_def)
  have un: "unprefixedProp u nav curLocale props = Inr None"
    using assms by (simp add: unprefixedProp_def split: option.splits)
  have h: "(case propHref props of
              HrefObj ob \<Rightarrow> HrefObj (ob\<lparr>pathname := hrefPathname (propHref props)\<rparr>)
            | HrefString _ \<Rightarrow> HrefString (hrefPathname (propHref props))) = propHref props"
    by (cases "propHref props") (simp_all add: hrefPathname_def)
  show ?thesis using f un h by (simp add: Link_def)
qed

theorem Link_non_localizable_witness:
  "\<not> isLocalizableHref (specUtils startsWithSlash) (HrefString ''https://example.com/about'')
   \<and> Link (specUtils startsWithSlash) (navOf (resolveRoutingConfig scenarioRouting)) ''en''
        \<lparr>propHref = HrefString ''https://example.com/about'', propLocale = Some ''de''\<rparr>
      = Inr \<lparr>linkHref = HrefString ''https://example.com/about'', linkLocale = Some ''de'',
             linkDefaultLocale = Some ''en'',
             linkLocaleCookie = Some defaultLocaleCookie, unprefixed = None\<rparr>"
proof -
  have a: "\<not> isLocalizableHref (specUtils startsWithSlash)
             (propHref \<lparr>propHref = HrefString ''https://example.com/about'',
                        propLocale = Some ''de''\<rparr>)"
    by (simp add: specUtils_simps startsWithSlash_def hrefPathname_def)
  show ?thesis
    using a Link_non_localizable_identity
              [OF a, of "navOf (resolveRoutingConfig scenarioRouting)" "''en''"]
    by (simp add: navOf_def resolveRoutingConfig_def scenarioRouting_def)
qed

section \<open>An explicit locale forces the prefix\<close>

text \<open>
  C9. For a localizable href and an explicit (non-empty) \<open>locale\<close> prop, \<open>Link\<close> calls
  \<open>getPathname\<close> for that locale with \<open>_forcePrefix\<close> true; with an
  \<open>applyPathnamePrefix\<close> that prefixes when forced, the pathname rendered starts with
  the prefix of that locale, in every prefix mode and also for the default locale.
\<close>

theorem Link_explicit_locale_forces_prefix:
  assumes loc: "isLocalizableHref u (propHref props)"
    and l: "propLocale props = Some l" "l \<noteq> []"
    and forced: "\<And>p c d. applyPathnamePrefix u p l c d (Some True)
                   = prefixPathname (getLocalePrefix l (localePrefix c)) p"
  shows "finalPathname u nav curLocale props
           = getPathname u nav ((finalArgs nav curLocale props)\<lparr>argLocale := l\<rparr>) (Some True)
       \<and> (\<forall>out. Link u nav curLocale props = Inr out \<longrightarrow>
             prefix (getLocalePrefix l (localePrefix (config nav)))
               (hrefPathname (linkHref out)))"
proof -
  have a: "argLocale (finalArgs nav curLocale props) = l"
    using l by (simp add: finalArgs_def localeOr_def truthyString_def)
  then have a': "(finalArgs nav curLocale props)\<lparr>argLocale := l\<rparr> = finalArgs nav curLocale props"
    by (metis GetPathnameArgs.surjective GetPathnameArgs.update_convs(2))
  have f: "finalPathname u nav curLocale props
           = getPathname u nav (finalArgs nav curLocale props) (Some True)"
    using loc l by (simp add: finalPathname_def linkForcePrefix_def)
  have p: "prefix (getLocalePrefix l (localePrefix (config nav))) r"
    if "finalPathname u nav curLocale props = Inr r" for r
    using that unfolding f getPathname_def
    by (auto simp: a forced prefix_prefixPathname split: sum.splits)
  show ?thesis using f a' p Link_href_pathname by auto
qed

theorem Link_explicit_locale_witness:
  "Link (specUtils startsWithSlash) (navOf (resolveRoutingConfig scenarioRouting)) ''de''
      \<lparr>propHref = HrefString ''/about'', propLocale = Some ''en''\<rparr>
    = Inr \<lparr>linkHref = HrefString ''/en/about'', linkLocale = Some ''en'',
           linkDefaultLocale = Some ''en'',
           linkLocaleCookie = Some defaultLocaleCookie, unprefixed = None\<rparr>
   \<and> prefix ''/en'' ''/en/about''"
proof -
  let ?props = "\<lparr>propHref = HrefString ''/about'', propLocale = Some ''en''\<rparr>"
  let ?nav = "navOf (resolveRoutingConfig scenarioRouting)"
  let ?out = "\<lparr>linkHref = HrefString ''/en/about'', linkLocale = Some ''en'',
               linkDefaultLocale = Some ''en'',
               linkLocaleCookie = Some defaultLocaleCookie, unprefixed = None\<rparr>"
  have a: "isLocalizableHref (specUtils startsWithSlash) (propHref ?props)"
    by (simp add: specUtils_simps startsWithSlash_def hrefPathname_def)
  have L: "Link (specUtils startsWithSlash) ?nav ''de'' ?props = Inr ?out"
    by (simp add: Link_def finalPathname_def unprefixedProp_def getPathname_def
        compiledPathname_def finalArgs_def localeOr_def truthyString_def linkForcePrefix_def
        specUtils_simps startsWithSlash_def hrefPathname_def navOf_def resolveRoutingConfig_def
        scenarioRouting_def resolveLocalePrefix_def applyPrefixPolicy_def prefixPathname_def
        getLocalePrefix_def)
  from Link_explicit_locale_forces_prefix
         [of "specUtils startsWithSlash" ?props "''en''" ?nav "''de''", OF a]
  have "prefix (getLocalePrefix ''en'' (localePrefix (config ?nav)))
          (hrefPathname (linkHref ?out))"
    using L by (simp add: specUtils_simps applyPrefixPolicy_forced)
  then show ?thesis using L
    by (simp add: hrefPathname_def navOf_def resolveRoutingConfig_def
        scenarioRouting_def resolveLocalePrefix_def getLocalePrefix_def)
qed

section \<open>The two phases under as-needed with domains\<close>















section \<open>The prefix under as-needed\<close>

text \<open>
  C4. Under \<open>as-needed\<close> without \<open>domains\<close>, \<open>getPathname\<close> returns the compiled pathname
  as it is for the default locale, and behind the prefix of the locale for every other
  locale.
\<close>

theorem asNeeded_prefix_policy:
  assumes "mode (localePrefix (config nav)) = AsNeeded" "domains (config nav) = None"
  shows "getPathname (specUtils P) nav args None
           = map_sum id
               (\<lambda>p. if defaultLocale (config nav) = Some (argLocale args) then p
                    else prefixPathname
                           (getLocalePrefix (argLocale args) (localePrefix (config nav))) p)
               (compiledPathname (specUtils P) nav args)"
  using assms
  by (cases "compiledPathname (specUtils P) nav args")
     (simp_all add: getPathname_def specUtils_simps applyPrefixPolicy_def prefixNeeded_def
        applicableDefaultLocale_def)

theorem asNeeded_prefix_policy_witness:
  "getPathname (specUtils startsWithSlash) (navOf (resolveRoutingConfig scenarioRouting))
      \<lparr>argHref = HrefString ''/about'', argLocale = ''en'', argDomain = None\<rparr> None
     = Inr ''/about''
   \<and> getPathname (specUtils startsWithSlash) (navOf (resolveRoutingConfig scenarioRouting))
      \<lparr>argHref = HrefString ''/about'', argLocale = ''de'', argDomain = None\<rparr> None
     = Inr ''/de/about''"
proof -
  let ?nav = "navOf (resolveRoutingConfig scenarioRouting)"
  have m: "mode (localePrefix (config ?nav)) = AsNeeded"
    by (simp add: navOf_def resolveRoutingConfig_def scenarioRouting_def resolveLocalePrefix_def)
  have d: "domains (config ?nav) = None"
    by (simp add: navOf_def resolveRoutingConfig_def scenarioRouting_def)
  have c: "compiledPathname (specUtils startsWithSlash) ?nav
             \<lparr>argHref = HrefString ''/about'', argLocale = l, argDomain = None\<rparr> = Inr ''/about''" for l
    by (simp add: compiledPathname_def navOf_def resolveRoutingConfig_def scenarioRouting_def)
  have dl: "defaultLocale (config ?nav) = Some ''en''"
    by (simp add: navOf_def resolveRoutingConfig_def scenarioRouting_def)
  have lp: "getLocalePrefix ''de'' (localePrefix (config ?nav)) = ''/de''"
    by (simp add: navOf_def resolveRoutingConfig_def scenarioRouting_def resolveLocalePrefix_def
        getLocalePrefix_def)
  show ?thesis
    using asNeeded_prefix_policy[OF m d, of startsWithSlash "\<lparr>argHref = HrefString ''/about'', argLocale = ''en'', argDomain = None\<rparr>"]
      asNeeded_prefix_policy[OF m d, of startsWithSlash "\<lparr>argHref = HrefString ''/about'', argLocale = ''de'', argDomain = None\<rparr>"]
    by (simp add: c dl lp prefixPathname_def)
qed

section \<open>Placeholders of a template\<close>

lemma placeholder_not_Chr: "placeholder n = Some tok \<Longrightarrow> \<not> isChr tok"
  by (auto simp: placeholder_def split: if_splits)

lemma tokenize_step:
  "tokenize (c # cs) = Chr c # tokenize cs
   \<or> (\<exists>tok r. placeholder (takeWhile nameChar cs) = Some tok
          \<and> dropWhile nameChar cs = CHR '']'' # r
          \<and> tokenize (c # cs) = tok # tokenize r)"
  by (auto split: option.splits list.splits)

lemma tokenize_found:
  assumes n: "\<forall>c \<in> set n. nameChar c" and p: "placeholder n = Some tok"
  shows "tok \<in> set (tokenize (a @ CHR ''['' # n @ CHR '']'' # b))"
proof (induction "length a" arbitrary: a rule: less_induct)
  case less
  let ?X = "CHR ''['' # n @ CHR '']'' # b"
  show ?case
  proof (cases a)
    case Nil
    have tw: "takeWhile nameChar (n @ CHR '']'' # b) = n"
      using n by (simp add: takeWhile_append2 nameChar_def)
    have dw: "dropWhile nameChar (n @ CHR '']'' # b) = CHR '']'' # b"
      using n by (simp add: dropWhile_append2 nameChar_def)
    show ?thesis using Nil p by (simp add: tw dw)
  next
    case (Cons c a')
    have ih: "tok \<in> set (tokenize (a' @ ?X))"
      using less[of a'] Cons by simp
    from tokenize_step[of c "a' @ ?X"]
    consider (lit) "tokenize (c # a' @ ?X) = Chr c # tokenize (a' @ ?X)"
      | (ph) tok' r where "dropWhile nameChar (a' @ ?X) = CHR '']'' # r"
          "tokenize (c # a' @ ?X) = tok' # tokenize r"
      by blast
    then show ?thesis
    proof cases
      case lit
      then show ?thesis using Cons ih by simp
    next
      case ph
      have ex: "\<exists>x \<in> set a'. \<not> nameChar x"
      proof (rule ccontr)
        assume "\<not> (\<exists>x \<in> set a'. \<not> nameChar x)"
        then have "dropWhile nameChar (a' @ ?X) = dropWhile nameChar ?X"
          by (simp add: dropWhile_append2)
        also have "\<dots> = ?X" by (simp add: nameChar_def)
        finally show False using ph(1) by simp
      qed
      then have "dropWhile nameChar (a' @ ?X) = dropWhile nameChar a' @ ?X"
        by (auto simp: dropWhile_append1)
      moreover have "dropWhile nameChar a' \<noteq> []"
        using ex by (simp add: dropWhile_eq_Nil_conv)
      ultimately obtain a'' where a'': "dropWhile nameChar a' = CHR '']'' # a''" "r = a'' @ ?X"
        using ph(1) by (cases "dropWhile nameChar a'") auto
      have "length (dropWhile nameChar a') \<le> length a'" by (rule length_dropWhile_le)
      then have "length a'' < length a" using a''(1) Cons by simp
      then have "tok \<in> set (tokenize (a'' @ ?X))" by (rule less)
      then show ?thesis using Cons ph(2) a''(2) by simp
    qed
  qed
qed

lemma splitOn_nonempty: "splitOn c s \<noteq> []"
  by (induction s) (auto split: list.splits)

lemma splitOn_first:
  "c \<notin> set m \<Longrightarrow> \<exists>b' ys. splitOn c (m @ b) = (m @ b') # ys"
proof (induction m)
  case Nil
  then show ?case using splitOn_nonempty[of c b] by (cases "splitOn c b") auto
next
  case (Cons x m)
  then obtain b' ys where "splitOn c (m @ b) = (m @ b') # ys" by auto
  then show ?case using Cons.prems by auto
qed

lemma splitOn_piece:
  assumes "c \<notin> set m"
  shows "\<exists>p \<in> set (splitOn c (a @ m @ b)). \<exists>a' b'. p = a' @ m @ b'"
proof (induction a)
  case Nil
  from splitOn_first[OF assms, of b] obtain b' ys where "splitOn c (m @ b) = (m @ b') # ys"
    by blast
  then show ?case by (metis append_Nil list.set_intros(1))
next
  case (Cons x a)
  then obtain p a' b' where p: "p \<in> set (splitOn c (a @ m @ b))" "p = a' @ m @ b'" by blast
  show ?case
  proof (cases "x = c")
    case True
    then show ?thesis using p by auto
  next
    case False
    obtain y ys where ys: "splitOn c (a @ m @ b) = y # ys"
      using splitOn_nonempty[of c "a @ m @ b"] by (cases "splitOn c (a @ m @ b)") auto
    show ?thesis
    proof (cases "p = y")
      case True
      then have "x # y = (x # a') @ m @ b'" using p(2) by simp
      moreover have "x # y \<in> set (splitOn c ((x # a) @ m @ b))" using False ys by simp
      ultimately show ?thesis by blast
    next
      case np: False
      then have "p \<in> set ys" using p(1) ys by simp
      then have "p \<in> set (splitOn c ((x # a) @ m @ b))" using False ys by simp
      then show ?thesis using p(2) by blast
    qed
  qed
qed

lemma segmentParams_parse:
  assumes "tok \<in> set (tokenize p)" "\<not> isChr tok"
  shows "tok \<in> set (segmentParams (parseSegment p))"
proof -
  have nc: "\<not> list_all isChr (tokenize p)" using assms by (auto simp: list_all_iff)
  show ?thesis
  proof (cases "tokenize p")
    case Nil
    then show ?thesis using assms by simp
  next
    case (Cons k ks)
    show ?thesis
    proof (cases ks)
      case Nil
      then show ?thesis using Cons assms nc
        by (cases k) (auto simp: parseSegment_def)
    next
      case c2: (Cons k' ks')
      have "parseSegment p = Mixed (tokenize p)"
        using Cons c2 nc by (cases k) (simp_all add: parseSegment_def)
      then show ?thesis using assms by simp
    qed
  qed
qed

lemma template_placeholder:
  assumes n: "\<forall>c \<in> set n. nameChar c" and p: "placeholder n = Some tok"
  shows "tok \<in> set (templateParams (a @ CHR ''['' # n @ CHR '']'' # b))"
proof -
  let ?m = "CHR ''['' # n @ [CHR '']'']"
  have "CHR ''/'' \<notin> set ?m" using n by (auto simp: nameChar_def)
  from splitOn_piece[OF this, of a b] obtain q a' b' where
    q: "q \<in> set (splitOn CHR ''/'' (a @ ?m @ b))" "q = a' @ ?m @ b'" by blast
  have "tok \<in> set (tokenize q)"
    using tokenize_found[OF n p, of a' b'] q(2) by simp
  then have "tok \<in> set (segmentParams (parseSegment q))"
    using placeholder_not_Chr[OF p] by (rule segmentParams_parse)
  then show ?thesis using q(1) by (auto simp: templateParams_def parseTemplate_def)
qed

section \<open>Encoding, splitting and joining\<close>











lemma encodeSegment_nonempty: "s \<noteq> [] \<Longrightarrow> encodeSegment s \<noteq> []"
  by (cases s) (auto simp: encodeSegment_def encodeChar_def)













section \<open>Missing parameters\<close>

lemma substToken_error:
  "substToken pms k = Inl e \<Longrightarrow> \<exists>m. e = MissingParameterError m \<and> pms m = None"
  by (cases k) (auto split: option.splits)

lemma substTokens_error:
  "substTokens pms ks = Inl e \<Longrightarrow> \<exists>m. e = MissingParameterError m \<and> pms m = None"
proof (induction ks)
  case Nil
  then show ?case by simp
next
  case (Cons k ks)
  then show ?case
    using substToken_error[of pms k] by (auto split: sum.splits)
qed

lemma substSegment_error:
  assumes "substSegment pms g = Inl e"
  shows "\<exists>m. e = MissingParameterError m \<and> pms m = None"
proof (cases g)
  case (Lit s)
  then show ?thesis using assms by simp
next
  case (Named n)
  then show ?thesis using assms substToken_error[of pms "Param n" e] by simp
next
  case (CatchAll n)
  then show ?thesis using assms substToken_error[of pms "Rest n" e] by simp
next
  case (Mixed ks)
  then show ?thesis using assms substTokens_error[of pms ks e] by simp
qed

lemma substSegments_error:
  "substSegments pms gs = Inl e \<Longrightarrow> \<exists>m. e = MissingParameterError m \<and> pms m = None"
proof (induction gs)
  case Nil
  then show ?case by simp
next
  case (Cons g gs)
  then show ?case
    using substSegment_error[of pms g] by (auto split: sum.splits)
qed

lemma substTokens_missing:
  assumes "k \<in> set ks" "k = Param n \<or> k = Rest n" "pms n = None"
  shows "\<exists>e. substTokens pms ks = Inl e"
  using assms
proof (induction ks)
  case Nil
  then show ?case by simp
next
  case (Cons x ks)
  show ?case
  proof (cases "substToken pms x")
    case (Inl e)
    then show ?thesis by simp
  next
    case (Inr y)
    then have "x \<noteq> k" using Cons.prems(2,3) by auto
    then have "k \<in> set ks" using Cons.prems(1) by simp
    then show ?thesis using Cons.IH Cons.prems(2,3) Inr by auto
  qed
qed

lemma substSegment_missing:
  assumes "k \<in> set (segmentParams g)" "k = Param n \<or> k = Rest n" "pms n = None"
  shows "\<exists>e. substSegment pms g = Inl e"
proof (cases g)
  case (Mixed ks)
  then have "k \<in> set ks" using assms(1) by simp
  from substTokens_missing[of k ks n pms] this assms(2,3) show ?thesis using Mixed by simp
qed (use assms in auto)

lemma substSegments_missing:
  assumes "k \<in> set (concat (map segmentParams gs))" "k = Param n \<or> k = Rest n" "pms n = None"
  shows "\<exists>e. substSegments pms gs = Inl e"
  using assms
proof (induction gs)
  case Nil
  then show ?case by simp
next
  case (Cons g gs)
  show ?case
  proof (cases "substSegment pms g")
    case (Inl e)
    then show ?thesis by simp
  next
    case (Inr y)
    then have "k \<notin> set (segmentParams g)"
      using substSegment_missing[of k g n pms] Cons.prems(2,3) by auto
    then have "k \<in> set (concat (map segmentParams gs))" using Cons.prems(1) by simp
    then show ?thesis using Cons.IH Cons.prems(2,3) Inr by auto
  qed
qed

lemma compile_missing:
  assumes "k \<in> set (templateParams (localizedTemplate ps t l))" "k = Param n \<or> k = Rest n"
    "pms n = None"
  shows "\<exists>m. compile ps t l pms = Inl (MissingParameterError m) \<and> pms m = None"
proof -
  from substSegments_missing[of k "parseTemplate (localizedTemplate ps t l)" n pms] assms
  obtain e where e: "substSegments pms (parseTemplate (localizedTemplate ps t l)) = Inl e"
    by (auto simp: templateParams_def)
  from substSegments_error[OF e] obtain m where "e = MissingParameterError m" "pms m = None"
    by blast
  then show ?thesis using e by (simp add: compile_def)
qed

text \<open>
  C8. When the localized template contains a placeholder \<open>[n]\<close> or \<open>[...n]\<close>, as a whole
  segment or inside one, and \<open>params\<close> gives \<open>n\<close> no value, \<open>compile\<close> fails with
  \<open>MissingParameterError\<close> for a parameter without a value, and so does \<open>getPathname\<close>,
  which hands the error on and returns no pathname.
\<close>

theorem compile_missing_parameter:
  assumes tpl: "(localizedTemplate ps t l = a @ ''['' @ n @ '']'' @ b \<and> take 3 n \<noteq> ''...'')
              \<or> localizedTemplate ps t l = a @ ''[...'' @ n @ '']'' @ b"
    and n: "n \<noteq> []" "\<forall>c \<in> set n. nameChar c"
    and m: "pms n = None"
    and nav: "navPathnames nav = Some ps"
  shows "(\<exists>m. compile ps t l pms = Inl (MissingParameterError m) \<and> pms m = None)
       \<and> (\<exists>m. getPathname (specUtils P) nav
                 \<lparr>argHref = HrefObj \<lparr>pathname = t, params = Some pms, query = q\<rparr>,
                  argLocale = l, argDomain = d\<rparr> force
               = Inl (MissingParameterError m) \<and> pms m = None)"
proof -
  have "\<exists>k. k \<in> set (templateParams (localizedTemplate ps t l)) \<and> (k = Param n \<or> k = Rest n)"
    using tpl
  proof
    assume h: "localizedTemplate ps t l = a @ ''['' @ n @ '']'' @ b \<and> take 3 n \<noteq> ''...''"
    then have "placeholder n = Some (Param n)" using n(1) by (simp add: placeholder_def)
    from template_placeholder[OF n(2) this, of a b] show ?thesis using h by auto
  next
    assume h: "localizedTemplate ps t l = a @ ''[...'' @ n @ '']'' @ b"
    have "placeholder (''...'' @ n) = Some (Rest n)" using n(1) by (simp add: placeholder_def)
    moreover have "\<forall>c \<in> set (''...'' @ n). nameChar c" using n(2) by (auto simp: nameChar_def)
    ultimately have "Rest n \<in> set (templateParams (a @ CHR ''['' # (''...'' @ n) @ CHR '']'' # b))"
      by (rule template_placeholder[rotated])
    then show ?thesis using h by auto
  qed
  then obtain k where "k \<in> set (templateParams (localizedTemplate ps t l))"
    "k = Param n \<or> k = Rest n" by blast
  from compile_missing[of k ps t l n pms] this m obtain x where
    c: "compile ps t l pms = Inl (MissingParameterError x)" "pms x = None" by blast
  then have "getPathname (specUtils P) nav
                 \<lparr>argHref = HrefObj \<lparr>pathname = t, params = Some pms, query = q\<rparr>,
                  argLocale = l, argDomain = d\<rparr> force = Inl (MissingParameterError x)"
    using nav
    by (simp add: getPathname_def compiledPathname_def specUtils_simps normalizeHref_def
        compileHref_def)
  then show ?thesis using c by blast
qed

lemma docs_news_de:
  "localizedTemplate docsPathnames ''/news/[articleSlug]-[articleId]'' ''de''
     = ''/neuigkeiten/[articleSlug]-[articleId]''"
  by (simp add: localizedTemplate_def docsPathnames_def)

lemma docs_news_missing:
  "compile docsPathnames ''/news/[articleSlug]-[articleId]'' ''de''
      (Map.empty(''articleSlug'' \<mapsto> Single ''launch'')) = Inl (MissingParameterError ''articleId'')"
  by code_simp

theorem compile_missing_parameter_witness:
  "compile docsPathnames ''/news/[articleSlug]-[articleId]'' ''de''
      (Map.empty(''articleSlug'' \<mapsto> Single ''launch''))
     = Inl (MissingParameterError ''articleId'')
   \<and> getPathname (specUtils startsWithSlash) (navOf (resolveRoutingConfig docsRouting))
        \<lparr>argHref = HrefObj \<lparr>pathname = ''/news/[articleSlug]-[articleId]'',
                             params = Some (Map.empty(''articleSlug'' \<mapsto> Single ''launch'')),
                             query = None\<rparr>,
         argLocale = ''de'', argDomain = None\<rparr> None
      = Inl (MissingParameterError ''articleId'')"
proof -
  let ?nav = "navOf (resolveRoutingConfig docsRouting)"
  let ?pms = "Map.empty(''articleSlug'' \<mapsto> Single ''launch'') :: Params"
  let ?t = "''/news/[articleSlug]-[articleId]''"
  have tpl: "(localizedTemplate docsPathnames ?t ''de''
                = ''/neuigkeiten/[articleSlug]-'' @ ''['' @ ''articleId'' @ '']'' @ []
              \<and> take 3 ''articleId'' \<noteq> ''...'')
           \<or> localizedTemplate docsPathnames ?t ''de''
                = ''/neuigkeiten/[articleSlug]-'' @ ''[...'' @ ''articleId'' @ '']'' @ []"
    by (simp add: docs_news_de)
  have n: "''articleId'' \<noteq> []" "\<forall>c \<in> set ''articleId''. nameChar c"
    by (simp_all add: nameChar_def)
  have m: "?pms ''articleId'' = None" by simp
  have nav: "navPathnames ?nav = Some docsPathnames"
    by (simp add: navOf_def resolveRoutingConfig_def docsRouting_def domainsRouting_def
        scenarioRouting_def)
  from compile_missing_parameter
         [where ps = docsPathnames and t = ?t and l = "''de''"
            and a = "''/neuigkeiten/[articleSlug]-''" and n = "''articleId''" and b = "[]"
            and pms = ?pms and nav = ?nav and P = startsWithSlash and q = None and d = None
            and force = None] tpl n m nav
  obtain x where x: "getPathname (specUtils startsWithSlash) ?nav
        \<lparr>argHref = HrefObj \<lparr>pathname = ?t, params = Some ?pms, query = None\<rparr>,
         argLocale = ''de'', argDomain = None\<rparr> None = Inl (MissingParameterError x)"
    by blast
  have "getPathname (specUtils startsWithSlash) ?nav
        \<lparr>argHref = HrefObj \<lparr>pathname = ?t, params = Some ?pms, query = None\<rparr>,
         argLocale = ''de'', argDomain = None\<rparr> None
      = map_sum id (\<lambda>p. applyPrefixPolicy p ''de'' (config ?nav) None None)
          (compile docsPathnames ?t ''de'' ?pms)"
    using nav
    by (cases "compile docsPathnames ?t ''de'' ?pms")
       (simp_all add: getPathname_def compiledPathname_def specUtils_simps normalizeHref_def
          compileHref_def)
  then have "x = ''articleId''" using x by (simp add: docs_news_missing)
  then show ?thesis using x by (simp add: docs_news_missing)
qed

section \<open>The round trip of compile and matchTemplate\<close>





























end
